theory Spec2Isabelle
  imports Complex_Main
begin

section \<open>JavaScript values used by the proxy server\<close>

text \<open>
  The server (\<^verbatim>\<open>src/server.js\<close>) works on JSON data, so the values it coerces are
  JavaScript primitives. A JavaScript number is a finite value, \<^verbatim>\<open>NaN\<close> or one of the two
  infinities. Finite values are kept exact (a rational): the rounding of IEEE-754 doubles
  and their overflow to an infinity are not part of the model, and \<^verbatim>\<open>-0\<close> is identified
  with \<^verbatim>\<open>0\<close> (the server only compares with \<^verbatim>\<open>=== 0\<close>, \<^verbatim>\<open>> 0\<close> and truthiness,
  which do not tell them apart).
\<close>

datatype jsnum = Num rat | NaN | PosInf | NegInf

datatype jsval = JUndefined | JNull | JBool bool | JNum jsnum | JStr string

text \<open>Unary minus, \<^verbatim>\<open>*\<close>, \<^verbatim>\<open>+\<close> and division by the literal \<^verbatim>\<open>100\<close> on numbers.\<close>

fun js_neg :: "jsnum \<Rightarrow> jsnum" where
  "js_neg (Num a) = Num (- a)"
| "js_neg NaN = NaN"
| "js_neg PosInf = NegInf"
| "js_neg NegInf = PosInf"

fun js_mul :: "jsnum \<Rightarrow> jsnum \<Rightarrow> jsnum" where
  "js_mul NaN y = NaN"
| "js_mul (Num a) NaN = NaN"
| "js_mul PosInf NaN = NaN"
| "js_mul NegInf NaN = NaN"
| "js_mul (Num a) (Num b) = Num (a * b)"
| "js_mul (Num a) PosInf = (if a = 0 then NaN else if 0 < a then PosInf else NegInf)"
| "js_mul (Num a) NegInf = (if a = 0 then NaN else if 0 < a then NegInf else PosInf)"
| "js_mul PosInf (Num b) = (if b = 0 then NaN else if 0 < b then PosInf else NegInf)"
| "js_mul NegInf (Num b) = (if b = 0 then NaN else if 0 < b then NegInf else PosInf)"
| "js_mul PosInf PosInf = PosInf"
| "js_mul PosInf NegInf = NegInf"
| "js_mul NegInf PosInf = NegInf"
| "js_mul NegInf NegInf = PosInf"

fun js_add :: "jsnum \<Rightarrow> jsnum \<Rightarrow> jsnum" where
  "js_add NaN y = NaN"
| "js_add (Num a) NaN = NaN"
| "js_add PosInf NaN = NaN"
| "js_add NegInf NaN = NaN"
| "js_add (Num a) (Num b) = Num (a + b)"
| "js_add (Num a) PosInf = PosInf"
| "js_add (Num a) NegInf = NegInf"
| "js_add PosInf (Num b) = PosInf"
| "js_add NegInf (Num b) = NegInf"
| "js_add PosInf PosInf = PosInf"
| "js_add PosInf NegInf = NaN"
| "js_add NegInf PosInf = NaN"
| "js_add NegInf NegInf = NegInf"

fun js_div100 :: "jsnum \<Rightarrow> jsnum" where
  "js_div100 (Num a) = Num (a / 100)"
| "js_div100 NaN = NaN"
| "js_div100 PosInf = PosInf"
| "js_div100 NegInf = NegInf"

text \<open>Truthiness of a number (\<^verbatim>\<open>x || 0\<close>), and the comparisons \<^verbatim>\<open>x > 0\<close>, \<^verbatim>\<open>x >= 0\<close>.\<close>

fun js_truthy_num :: "jsnum \<Rightarrow> bool" where
  "js_truthy_num (Num a) = (a \<noteq> 0)"
| "js_truthy_num NaN = False"
| "js_truthy_num PosInf = True"
| "js_truthy_num NegInf = True"

fun js_gt0 :: "jsnum \<Rightarrow> bool" where
  "js_gt0 (Num a) = (0 < a)"
| "js_gt0 NaN = False"
| "js_gt0 PosInf = True"
| "js_gt0 NegInf = False"

fun js_ge0 :: "jsnum \<Rightarrow> bool" where
  "js_ge0 (Num a) = (0 \<le> a)"
| "js_ge0 NaN = False"
| "js_ge0 PosInf = True"
| "js_ge0 NegInf = False"

subsection \<open>Strings to numbers\<close>

text \<open>
  A \<^typ>\<open>string\<close> stands for a JavaScript string whose code units are below 256.
  White space is what \<^verbatim>\<open>trim\<close>, \<^verbatim>\<open>parseFloat\<close> and \<^verbatim>\<open>Number\<close> skip: tab, line feed,
  vertical tab, form feed, carriage return, space and the no-break space.
\<close>

definition is_ws :: "char \<Rightarrow> bool" where
  "is_ws c = (c \<in> set [CHR 0x09, CHR 0x0A, CHR 0x0B, CHR 0x0C, CHR 0x0D, CHR 0x20, CHR 0xA0])"

definition trim :: "string \<Rightarrow> string" where
  "trim s = rev (dropWhile is_ws (rev (dropWhile is_ws s)))"

definition digit_val :: "char \<Rightarrow> nat option" where
  "digit_val c = map_of (zip ''0123456789'' [0 ..< 10]) c"

definition is_digit :: "char \<Rightarrow> bool" where
  "is_digit c = (digit_val c \<noteq> None)"

definition hex_val :: "char \<Rightarrow> nat option" where
  "hex_val c = map_of (zip ''0123456789abcdef'' [0 ..< 16] @ zip ''ABCDEF'' [10 ..< 16]) c"

text \<open>The value of a digit string in a base; a character that is no digit counts 0.\<close>

definition digits_in :: "(char \<Rightarrow> nat option) \<Rightarrow> nat \<Rightarrow> string \<Rightarrow> nat" where
  "digits_in dv b s = foldl (\<lambda>a c. b * a + (case dv c of None \<Rightarrow> 0 | Some d \<Rightarrow> d)) 0 s"

text \<open>
  The exponent part \<^verbatim>\<open>e\<close> or \<^verbatim>\<open>E\<close>, an optional sign, at least one digit. The result is
  the exponent and what follows it; without digits there is no exponent part.
\<close>

definition parse_exponent :: "string \<Rightarrow> (int \<times> string) option" where
  "parse_exponent s =
     (case s of
        [] \<Rightarrow> None
      | e # t \<Rightarrow>
          if e = CHR ''e'' \<or> e = CHR ''E'' then
            (let (neg, u) = (case t of
                               [] \<Rightarrow> (False, t)
                             | c # v \<Rightarrow> if c = CHR ''-'' then (True, v)
                                        else if c = CHR ''+'' then (False, v) else (False, t));
                 ds = takeWhile is_digit u
             in if ds = [] then None
                else Some ((if neg then - int (digits_in digit_val 10 ds)
                            else int (digits_in digit_val 10 ds)),
                           dropWhile is_digit u))
          else None)"

definition scale10 :: "rat \<Rightarrow> int \<Rightarrow> rat" where
  "scale10 m e = (if 0 \<le> e then m * 10 ^ nat e else m / 10 ^ nat (- e))"

text \<open>
  The longest prefix that is a \<^verbatim>\<open>StrUnsignedDecimalLiteral\<close> of ECMAScript:
  \<^verbatim>\<open>Infinity\<close>, digits with an optional fraction and exponent, or a dot followed by
  digits. The result is its value and the rest of the string.
\<close>

definition parse_unsigned :: "string \<Rightarrow> (jsnum \<times> string) option" where
  "parse_unsigned s =
     (if take 8 s = ''Infinity'' then Some (PosInf, drop 8 s)
      else
        (let ip = takeWhile is_digit s;
             r1 = dropWhile is_digit s;
             (fp, r2) = (case r1 of
                           [] \<Rightarrow> ([], r1)
                         | d # t \<Rightarrow>
                             if d = CHR ''.'' \<and> (ip \<noteq> [] \<or> takeWhile is_digit t \<noteq> [])
                             then (takeWhile is_digit t, dropWhile is_digit t)
                             else ([], r1))
         in if ip = [] \<and> fp = [] then None
            else
              (let m = rat_of_nat (digits_in digit_val 10 (ip @ fp)) / 10 ^ length fp
               in case parse_exponent r2 of
                    None \<Rightarrow> Some (Num m, r2)
                  | Some (e, r3) \<Rightarrow> Some (Num (scale10 m e), r3))))"

definition parse_signed :: "string \<Rightarrow> (jsnum \<times> string) option" where
  "parse_signed s =
     (case s of
        [] \<Rightarrow> None
      | c # t \<Rightarrow>
          if c = CHR ''+'' then parse_unsigned t
          else if c = CHR ''-'' then map_option (\<lambda>(v, r). (js_neg v, r)) (parse_unsigned t)
          else parse_unsigned s)"

text \<open>\<^verbatim>\<open>parseFloat(s)\<close>: skip leading white space, take the longest numeric prefix.\<close>

definition parseFloat :: "string \<Rightarrow> jsnum" where
  "parseFloat s = (case parse_signed (dropWhile is_ws s) of None \<Rightarrow> NaN | Some (v, r) \<Rightarrow> v)"

text \<open>
  \<^verbatim>\<open>Number(s)\<close> on a string: the trimmed string is empty (0), a hexadecimal, octal or
  binary integer literal, or a decimal literal that spans the whole string; else \<^verbatim>\<open>NaN\<close>.
\<close>

definition radix_literal :: "string \<Rightarrow> jsnum option" where
  "radix_literal t =
     (let p = take 2 t; ds = drop 2 t
      in if p = ''0x'' \<or> p = ''0X'' then
           Some (if ds \<noteq> [] \<and> list_all (\<lambda>c. hex_val c \<noteq> None) ds
                 then Num (rat_of_nat (digits_in hex_val 16 ds)) else NaN)
         else if p = ''0o'' \<or> p = ''0O'' then
           Some (if ds \<noteq> [] \<and> list_all (\<lambda>c. c \<in> set ''01234567'') ds
                 then Num (rat_of_nat (digits_in digit_val 8 ds)) else NaN)
         else if p = ''0b'' \<or> p = ''0B'' then
           Some (if ds \<noteq> [] \<and> list_all (\<lambda>c. c \<in> set ''01'') ds
                 then Num (rat_of_nat (digits_in digit_val 2 ds)) else NaN)
         else None)"

definition StringToNumber :: "string \<Rightarrow> jsnum" where
  "StringToNumber s =
     (let t = trim s
      in if t = [] then Num 0
         else case radix_literal t of
                Some v \<Rightarrow> v
              | None \<Rightarrow> (case parse_signed t of
                           Some (v, []) \<Rightarrow> v
                         | _ \<Rightarrow> NaN))"

text \<open>\<^verbatim>\<open>Number(v)\<close> on a primitive value.\<close>

fun Number :: "jsval \<Rightarrow> jsnum" where
  "Number JUndefined = NaN"
| "Number JNull = Num 0"
| "Number (JBool b) = (if b then Num 1 else Num 0)"
| "Number (JNum n) = n"
| "Number (JStr s) = StringToNumber s"

section \<open>Stock normalisation: \<^verbatim>\<open>parseStockInfo\<close>\<close>

text \<open>
  A product is a JSON object; the two fields the helper reads are named, every other field
  lives in the record's extension. An absent field reads as \<^verbatim>\<open>undefined\<close>. The argument
  of the helper may also be \<^verbatim>\<open>undefined\<close> or \<^verbatim>\<open>null\<close>.
\<close>

record product =
  stock_quantity :: jsval
  stock_status :: jsval

datatype 'p nullable = Undefined | Null | Obj 'p

definition parseStockInfo :: "'a product_scheme nullable \<Rightarrow> 'a product_scheme nullable" where
  "parseStockInfo product =
     (case product of
        Undefined \<Rightarrow> Undefined
      | Null \<Rightarrow> Null
      | Obj p \<Rightarrow>
          (let p1 = (if stock_quantity p \<noteq> JUndefined
                     then p\<lparr>stock_quantity := JNum (Number (stock_quantity p))\<rparr>
                     else p\<lparr>stock_quantity := JNum (Num 0)\<rparr>);
               p2 = (if stock_quantity p1 = JNum (Num 0) \<and> stock_status p1 = JStr ''instock''
                     then p1\<lparr>stock_quantity := JNum (Num 1)\<rparr>
                     else p1)
           in Obj p2))"

section \<open>Shipping calculation: \<^verbatim>\<open>POST /api/shipping/calculate\<close>\<close>

subsection \<open>Data\<close>

text \<open>
  The records follow the JSON that the handler reads. Zones, locations, methods and cart
  items are objects; names, codes, titles, descriptions and the values of settings are
  strings where they are present. The fields of a cart item are arbitrary primitives,
  which \<^verbatim>\<open>*\<close> coerces to numbers.
\<close>

text \<open>A location of a zone, as upstream returns it: its type and its code are strings.\<close>

record location =
  type :: string
  code :: string

record zone =
  zone_id :: int
  name :: string

record shipping_address =
  country :: "string option"

record cart_item =
  price :: jsval
  quantity :: jsval

text \<open>
  The request body. \<open>None\<close> is a field that is missing or \<^verbatim>\<open>null\<close>; the country of an
  address is \<open>None\<close> when it is missing or no string.
\<close>

record request_body =
  cart_items :: "cart_item list option"
  shipping_address :: "shipping_address option"

text \<open>
  The settings of a method map a name to an entry \<^verbatim>\<open>{value: ...}\<close>, whose value is a string
  or missing.
\<close>

type_synonym settings = "string \<Rightarrow> string option option"

record shipping_method =
  method_id :: string
  instance_id :: int
  method_title :: "string option"
  title :: "string option"
  enabled :: bool
  settings :: "settings option"
  method_description :: "string option"

record shipping_option =
  opt_id :: string
  opt_instance_id :: int
  opt_title :: string
  cost :: jsnum
  description :: string
  opt_enabled :: bool

text \<open>
  The upstream commerce API, as the handler sees it: each \<^verbatim>\<open>wooCommerceAPI.get\<close> either
  returns data or throws an error with a message.
\<close>

record upstream =
  get_zones :: "string + zone list"
  get_locations :: "int \<Rightarrow> string + location list"
  get_methods :: "int \<Rightarrow> string + shipping_method list"

text \<open>
  What the handler's \<^verbatim>\<open>try\<close> block can throw: a failed upstream call, the explicit
  \<^verbatim>\<open>Error('No shipping zones available')\<close>, and the \<^verbatim>\<open>TypeError\<close> of a property read on
  \<^verbatim>\<open>undefined\<close> or \<^verbatim>\<open>null\<close>.
\<close>

datatype pipeline_error = UpstreamError string | NoZonesAvailable | TypeError

subsection \<open>Zone selection\<close>

definition catch_all_name :: string where
  "catch_all_name = ''Locations not covered by your other zones''"

text \<open>
  \<^verbatim>\<open>locations.find(location => location.type === 'country' &&
     location.code === shipping_address.country)\<close>:
  the address is read only for a location of type country, and reading it throws when
  there is no address.
\<close>

fun countryMatch :: "shipping_address option \<Rightarrow> location list \<Rightarrow> pipeline_error + location option" where
  "countryMatch addr [] = Inr None"
| "countryMatch addr (l # ls) =
     (if type l = ''country'' then
        (case addr of
           None \<Rightarrow> Inl TypeError
         | Some a \<Rightarrow> if Some (code l) = country a then Inr (Some l) else countryMatch addr ls)
      else countryMatch addr ls)"

text \<open>
  The \<^verbatim>\<open>for (const zone of zonesResponse.data)\<close> loop. Whatever is thrown inside the
  loop body's \<^verbatim>\<open>try\<close> (the location fetch, the \<^verbatim>\<open>find\<close>) is caught there and the loop
  goes on; the first match ends it.
\<close>

fun zone_loop :: "(int \<Rightarrow> string + location list) \<Rightarrow> shipping_address option \<Rightarrow> zone list \<Rightarrow> zone option" where
  "zone_loop locs addr [] = None"
| "zone_loop locs addr (z # zs) =
     (case locs (zone_id z) of
        Inl e \<Rightarrow> zone_loop locs addr zs
      | Inr locations \<Rightarrow>
          (case countryMatch addr locations of
             Inl e \<Rightarrow> zone_loop locs addr zs
           | Inr None \<Rightarrow> zone_loop locs addr zs
           | Inr (Some l) \<Rightarrow> Some z))"

text \<open>
  \<^verbatim>\<open>zones.find(zone => zone.name !== '...') || zones[0]\<close>, which is \<^verbatim>\<open>undefined\<close> on an
  empty list.
\<close>

definition fallback_zone :: "zone list \<Rightarrow> zone option" where
  "fallback_zone zones =
     (case find (\<lambda>z. name z \<noteq> catch_all_name) zones of
        Some z \<Rightarrow> Some z
      | None \<Rightarrow> (case zones of [] \<Rightarrow> None | z # zs \<Rightarrow> Some z))"

definition selectZone :: "(int \<Rightarrow> string + location list) \<Rightarrow> shipping_address option \<Rightarrow> zone list \<Rightarrow> pipeline_error + zone" where
  "selectZone locs addr zones =
     (case zone_loop locs addr zones of
        Some z \<Rightarrow> Inr z
      | None \<Rightarrow> (case fallback_zone zones of
                   Some z \<Rightarrow> Inr z
                 | None \<Rightarrow> Inl NoZonesAvailable))"

subsection \<open>Method cost, title and description\<close>

text \<open>\<^verbatim>\<open>cart_items.reduce((total, item) => total + (item.price * item.quantity), 0)\<close>\<close>

definition cartTotal :: "cart_item list \<Rightarrow> jsnum" where
  "cartTotal items =
     foldl (\<lambda>total item. js_add total (js_mul (Number (price item)) (Number (quantity item))))
       (Num 0) items"

text \<open>\<^verbatim>\<open>parseFloat\<close> of a value that may be \<^verbatim>\<open>undefined\<close>: it parses the string "undefined".\<close>

definition parseFloat_value :: "string option \<Rightarrow> jsnum" where
  "parseFloat_value v = parseFloat (case v of None \<Rightarrow> ''undefined'' | Some s \<Rightarrow> s)"

definition method_cost :: "jsnum \<Rightarrow> shipping_method \<Rightarrow> jsnum" where
  "method_cost subtotal m =
     (case settings m of
        None \<Rightarrow> Num 0
      | Some st \<Rightarrow>
          (case st ''cost'' of
             None \<Rightarrow> Num 0
           | Some None \<Rightarrow> Num 0
           | Some (Some costValue) \<Rightarrow>
               if costValue = [] then Num 0
               else if CHR ''%'' \<in> set costValue then
                 (let percentage = parseFloat (remove1 CHR ''%'' costValue)
                  in js_div100 (js_mul subtotal percentage))
               else if costValue = ''min_amount'' then
                 (case st ''min_amount'' of
                    None \<Rightarrow> Num 0
                  | Some v \<Rightarrow> parseFloat_value v)
               else
                 (let v = parseFloat costValue
                  in if js_truthy_num v then v else Num 0)))"

text \<open>\<^verbatim>\<open>method.settings && method.settings[k] && method.settings[k].value\<close>, when truthy.\<close>

definition setting_value :: "shipping_method \<Rightarrow> string \<Rightarrow> string option" where
  "setting_value m k =
     (case settings m of
        None \<Rightarrow> None
      | Some st \<Rightarrow>
          (case st k of
             Some (Some v) \<Rightarrow> if v = [] then None else Some v
           | _ \<Rightarrow> None))"

definition truthy_string :: "string option \<Rightarrow> string option" where
  "truthy_string v = (case v of None \<Rightarrow> None | Some s \<Rightarrow> if s = [] then None else Some s)"

definition method_title_text :: "shipping_method \<Rightarrow> string" where
  "method_title_text m =
     (case setting_value m ''title'' of
        Some t \<Rightarrow> t
      | None \<Rightarrow>
          (case truthy_string (method_title m) of
             Some t \<Rightarrow> t
           | None \<Rightarrow> (case truthy_string (title m) of Some t \<Rightarrow> t | None \<Rightarrow> ''Shipping'')))"

text \<open>
  \<^verbatim>\<open>s.replace(/<[^>]*>/g, '')\<close>: every \<^verbatim>\<open><\<close> that has a \<^verbatim>\<open>>\<close> somewhere after it is
  removed together with everything up to the first such \<^verbatim>\<open>>\<close>.
\<close>

function strip_tags :: "string \<Rightarrow> string" where
  "strip_tags [] = []"
| "strip_tags (c # cs) =
     (if c = CHR ''<'' then
        (case dropWhile (\<lambda>d. d \<noteq> CHR ''>'') cs of
           [] \<Rightarrow> c # strip_tags cs
         | g # rest \<Rightarrow> strip_tags rest)
      else c # strip_tags cs)"
  by pat_completeness auto
termination
proof (relation "measure length")
  show "wf (measure length)" by simp
next
  fix c :: char and cs g rest
  assume "dropWhile (\<lambda>d. d \<noteq> CHR ''>'') cs = g # rest"
  then have "length (g # rest) \<le> length cs"
    using length_dropWhile_le [of "\<lambda>d. d \<noteq> CHR ''>''" cs] by simp
  then show "(rest, c # cs) \<in> measure length" by simp
qed simp_all

definition default_description :: "string \<Rightarrow> jsnum \<Rightarrow> string" where
  "default_description mid c =
     (if mid = ''free_shipping'' then ''Free delivery to your address''
      else if mid = ''flat_rate'' then
        (if js_gt0 c then ''Fixed rate delivery'' else ''Standard delivery'')
      else if mid = ''local_pickup'' then ''Pick up from our location''
      else ''Delivery service'')"

definition method_description_text :: "shipping_method \<Rightarrow> jsnum \<Rightarrow> string" where
  "method_description_text m c =
     (let d = (case truthy_string (method_description m) of
                 Some t \<Rightarrow> trim (strip_tags t)
               | None \<Rightarrow> (case setting_value m ''description'' of
                            Some t \<Rightarrow> trim (strip_tags t)
                          | None \<Rightarrow> []))
      in if d = [] \<or> length d < 5 then default_description (method_id m) c else d)"

text \<open>The body of \<^verbatim>\<open>enabledMethods.map(method => ...)\<close>.\<close>

definition shippingOption :: "jsnum \<Rightarrow> shipping_method \<Rightarrow> shipping_option" where
  "shippingOption subtotal m =
     \<lparr>opt_id = method_id m,
      opt_instance_id = instance_id m,
      opt_title = method_title_text m,
      cost = method_cost subtotal m,
      description = method_description_text m (method_cost subtotal m),
      opt_enabled = enabled m\<rparr>"

definition computeOptions :: "shipping_method list \<Rightarrow> jsnum \<Rightarrow> shipping_option list" where
  "computeOptions methods subtotal = map (shippingOption subtotal) (filter enabled methods)"

subsection \<open>The handler\<close>

text \<open>
  The \<^verbatim>\<open>try\<close> block of the handler, in the order of the source: the zone list, the zone,
  the methods of that zone, the cart total, the options.
\<close>

definition calculateShipping :: "upstream \<Rightarrow> request_body \<Rightarrow> pipeline_error + (shipping_option list \<times> zone)" where
  "calculateShipping up body =
     (case get_zones up of
        Inl e \<Rightarrow> Inl (UpstreamError e)
      | Inr zones \<Rightarrow>
          (case selectZone (get_locations up) (shipping_address body) zones of
             Inl e \<Rightarrow> Inl e
           | Inr selectedZone \<Rightarrow>
               (case get_methods up (zone_id selectedZone) of
                  Inl e \<Rightarrow> Inl (UpstreamError e)
                | Inr methods \<Rightarrow>
                    (case cart_items body of
                       None \<Rightarrow> Inl TypeError
                     | Some items \<Rightarrow>
                         Inr (computeOptions methods (cartTotal items), selectedZone)))))"

text \<open>
  The response: \<^verbatim>\<open>res.json({shipping_options, zone})\<close> with status 200, or from the
  \<^verbatim>\<open>catch\<close> block status 500 with \<^verbatim>\<open>{error: 'Failed to calculate shipping', message}\<close>,
  the message being that of the error caught.
\<close>

datatype response = Json200 "shipping_option list" zone | Json500 string pipeline_error

definition handler :: "upstream \<Rightarrow> request_body \<Rightarrow> response" where
  "handler up body =
     (case calculateShipping up body of
        Inr (opts, z) \<Rightarrow> Json200 opts z
      | Inl e \<Rightarrow> Json500 ''Failed to calculate shipping'' e)"

fun status :: "response \<Rightarrow> nat" where
  "status (Json200 opts z) = 200"
| "status (Json500 tag e) = 500"

section \<open>Notions used in the statements\<close>

text \<open>
  A zone covers a country when its location list can be fetched and holds a location of
  type "country" with that code.
\<close>

definition zone_covers :: "(int \<Rightarrow> string + location list) \<Rightarrow> string \<Rightarrow> zone \<Rightarrow> bool" where
  "zone_covers locs cc z =
     (case locs (zone_id z) of
        Inl e \<Rightarrow> False
      | Inr ls \<Rightarrow> list_ex (\<lambda>l. type l = ''country'' \<and> code l = cc) ls)"

text \<open>
  The fallback of a non-empty zone list: the first zone that does not bear the catch-all
  name, else the first zone.
\<close>

definition first_real_zone :: "zone list \<Rightarrow> zone" where
  "first_real_zone zones =
     (case find (\<lambda>z. name z \<noteq> catch_all_name) zones of Some z \<Rightarrow> z | None \<Rightarrow> hd zones)"



subsection \<open>Example data\<close>

text \<open>
  The examples of the specification: a zone "EU" that covers Germany, a zone
  "Rest of World" without locations, a flat-rate method, a cart of two items at 10.
\<close>

definition ex_zones :: "zone list" where
  "ex_zones = [\<lparr>zone_id = 1, name = ''EU''\<rparr>, \<lparr>zone_id = 2, name = ''Rest of World''\<rparr>]"

definition ex_locations :: "int \<Rightarrow> string + location list" where
  "ex_locations i = (if i = 1 then Inr [\<lparr>type = ''country'', code = ''DE''\<rparr>] else Inr [])"

definition ex_method :: "settings \<Rightarrow> shipping_method" where
  "ex_method st =
     \<lparr>method_id = ''flat_rate'', instance_id = 7, method_title = Some ''Flat rate'', title = None,
      enabled = True, settings = Some st, method_description = None\<rparr>"

definition ex_upstream :: "string \<Rightarrow> upstream" where
  "ex_upstream costValue =
     \<lparr>get_zones = Inr ex_zones,
      get_locations = ex_locations,
      get_methods = (\<lambda>i. Inr [ex_method [''cost'' \<mapsto> Some costValue]])\<rparr>"

definition ex_cart :: "cart_item list" where
  "ex_cart = [\<lparr>price = JNum (Num 10), quantity = JNum (Num 2)\<rparr>]"

definition ex_body :: "shipping_address option \<Rightarrow> request_body" where
  "ex_body addr = \<lparr>cart_items = Some ex_cart, shipping_address = addr\<rparr>"

text \<open>An upstream whose location fetch fails for zone 1, and whose zone 2 covers Germany.\<close>

definition ex_failing_upstream :: upstream where
  "ex_failing_upstream =
     \<lparr>get_zones = Inr ex_zones,
      get_locations = (\<lambda>i. if i = 1 then Inl ''timeout of 5000ms exceeded''
                            else Inr [\<lparr>type = ''country'', code = ''DE''\<rparr>]),
      get_methods = (\<lambda>i. Inr [ex_method [''cost'' \<mapsto> Some ''10%'']])\<rparr>"

section \<open>Properties of the stock normaliser\<close>

text \<open>
  Claim C8. \<^verbatim>\<open>parseStockInfo\<close> is idempotent: applying it to its own result changes
  nothing. It returns for every argument: \<^verbatim>\<open>undefined\<close> and \<^verbatim>\<open>null\<close> come back
  unchanged, and an object comes back as an object, whatever its quantity and status are.
\<close>

theorem parseStockInfo_idempotent_total:
  "parseStockInfo (parseStockInfo x) = parseStockInfo x
   \<and> parseStockInfo Undefined = Undefined
   \<and> parseStockInfo Null = Null
   \<and> (\<exists>q. parseStockInfo (Obj p) = Obj q)"
  by (cases x) (simp_all add: parseStockInfo_def Let_def)

theorem parseStockInfo_idempotent_total_witness:
  "parseStockInfo (parseStockInfo (Obj \<lparr>stock_quantity = JStr ''0'', stock_status = JStr ''instock''\<rparr>))
     = Obj \<lparr>stock_quantity = JNum (Num 1), stock_status = JStr ''instock''\<rparr>"
proof -
  let ?p = "\<lparr>stock_quantity = JStr ''0'', stock_status = JStr ''instock''\<rparr>"
  have twice: "parseStockInfo (parseStockInfo (Obj ?p)) = parseStockInfo (Obj ?p)"
    using parseStockInfo_idempotent_total [of "Obj ?p" ?p] by (rule conjunct1)
  have once: "parseStockInfo (Obj ?p)
     = Obj \<lparr>stock_quantity = JNum (Num 1), stock_status = JStr ''instock''\<rparr>"
    by code_simp
  show ?thesis
    by (rule trans [OF twice once])
qed

text \<open>
  Claim C3, as the code has it. For a product object the result keeps the status and every
  other field. Its quantity is a number: 0 for a missing field and \<^verbatim>\<open>Number(field)\<close>
  otherwise, replaced by 1 when that number is 0 and the status is "instock". The quantity
  is kept as \<^verbatim>\<open>Number\<close> gives it, so it is non-negative when the field is missing or
  coerces to a non-negative number; a negative quantity stays negative and a text that is
  no number becomes \<^verbatim>\<open>NaN\<close>.
\<close>

theorem parseStockInfo_quantity:
  fixes p :: "'a product_scheme"
  shows "\<exists>q. parseStockInfo (Obj p) = Obj q
           \<and> stock_status q = stock_status p
           \<and> product.more q = product.more p
           \<and> (stock_quantity p = JUndefined \<longrightarrow>
                stock_quantity q = JNum (if stock_status p = JStr ''instock'' then Num 1 else Num 0))
           \<and> (stock_quantity p \<noteq> JUndefined \<longrightarrow>
                stock_quantity q =
                  JNum (if Number (stock_quantity p) = Num 0 \<and> stock_status p = JStr ''instock''
                        then Num 1 else Number (stock_quantity p)))
           \<and> (stock_quantity p = JUndefined \<or> js_ge0 (Number (stock_quantity p)) \<longrightarrow>
                (\<exists>n. stock_quantity q = JNum n \<and> js_ge0 n))"
  by (simp add: parseStockInfo_def Let_def)

theorem parseStockInfo_quantity_witness:
  "(\<exists>q. parseStockInfo (Obj \<lparr>stock_quantity = JStr '' 7 '', stock_status = JStr ''instock''\<rparr>) = Obj q
        \<and> stock_quantity q = JNum (Num 7) \<and> js_ge0 (Num 7))
   \<and> (\<exists>q. parseStockInfo (Obj \<lparr>stock_quantity = JUndefined, stock_status = JStr ''instock''\<rparr>) = Obj q
        \<and> stock_quantity q = JNum (Num 1))"
proof -
  let ?p = "\<lparr>stock_quantity = JStr '' 7 '', stock_status = JStr ''instock''\<rparr>"
  let ?u = "\<lparr>stock_quantity = JUndefined, stock_status = JStr ''instock''\<rparr>"
  have n: "Number (stock_quantity ?p) = Num 7"
    by code_simp
  have present: "\<exists>q. parseStockInfo (Obj ?p) = Obj q \<and> stock_quantity q = JNum (Num 7) \<and> js_ge0 (Num 7)"
    using parseStockInfo_quantity [of ?p] n by auto
  have missing: "\<exists>q. parseStockInfo (Obj ?u) = Obj q \<and> stock_quantity q = JNum (Num 1)"
    using parseStockInfo_quantity [of ?u] by auto
  show ?thesis
    using present missing by (rule conjI)
qed

text \<open>
  The claim C3 as written fails: a quantity of -3 (a product on backorder) stays -3, which
  is not non-negative, and the text "many" becomes \<^verbatim>\<open>NaN\<close>, not 0.
\<close>

theorem parseStockInfo_nonneg_counterexample:
  "parseStockInfo (Obj \<lparr>stock_quantity = JNum (Num (- 3)), stock_status = JStr ''onbackorder''\<rparr>)
     = Obj \<lparr>stock_quantity = JNum (Num (- 3)), stock_status = JStr ''onbackorder''\<rparr>
   \<and> \<not> js_ge0 (Num (- 3))
   \<and> parseStockInfo (Obj \<lparr>stock_quantity = JStr ''many'', stock_status = JStr ''instock''\<rparr>)
     = Obj \<lparr>stock_quantity = JNum NaN, stock_status = JStr ''instock''\<rparr>
   \<and> NaN \<noteq> Num 0"
  by code_simp

section \<open>Properties of the zone resolver\<close>

lemma countryMatch_with_country:
  "country a = Some cc \<Longrightarrow>
   countryMatch (Some a) ls = Inr (find (\<lambda>l. type l = ''country'' \<and> code l = cc) ls)"
  by (induction ls) auto

lemma countryMatch_without_country:
  "addr = None \<or> (\<exists>a. addr = Some a \<and> country a = None) \<Longrightarrow>
   countryMatch addr ls = Inr None \<or> countryMatch addr ls = Inl TypeError"
  by (induction ls) auto

text \<open>With a destination country, the loop is a search for the first zone that covers it.\<close>

lemma zone_loop_is_find:
  "country a = Some cc \<Longrightarrow> zone_loop locs (Some a) zones = find (zone_covers locs cc) zones"
proof (induction zones)
  case Nil
  show ?case by simp
next
  case (Cons z zs)
  show ?case
  proof (cases "locs (zone_id z)")
    case (Inl e)
    with Cons show ?thesis by (simp add: zone_covers_def)
  next
    case (Inr ls)
    have m: "countryMatch (Some a) ls = Inr (find (\<lambda>l. type l = ''country'' \<and> code l = cc) ls)"
      using Cons.prems by (rule countryMatch_with_country)
    show ?thesis
    proof (cases "find (\<lambda>l. type l = ''country'' \<and> code l = cc) ls")
      case None
      then have "\<not> zone_covers locs cc z"
        using Inr by (auto simp: zone_covers_def find_None_iff list_ex_iff)
      with None Inr m Cons show ?thesis by simp
    next
      case (Some l)
      then have "zone_covers locs cc z"
        using Inr by (auto simp: zone_covers_def find_Some_iff list_ex_iff dest: nth_mem)
      with Some Inr m show ?thesis by simp
    qed
  qed
qed

text \<open>Without an address, or without a country in it, the loop selects nothing.\<close>

lemma zone_loop_no_country:
  "addr = None \<or> (\<exists>a. addr = Some a \<and> country a = None) \<Longrightarrow> zone_loop locs addr zones = None"
proof (induction zones)
  case Nil
  show ?case by simp
next
  case (Cons z zs)
  show ?case
  proof (cases "locs (zone_id z)")
    case (Inl e)
    with Cons show ?thesis by simp
  next
    case (Inr ls)
    from countryMatch_without_country [OF Cons.prems, of ls] Inr Cons show ?thesis
      by auto
  qed
qed

lemma fallback_zone_nonempty:
  "zones \<noteq> [] \<Longrightarrow> fallback_zone zones = Some (first_real_zone zones)"
  by (cases zones) (auto simp: fallback_zone_def first_real_zone_def split: option.splits)

text \<open>A failed location fetch counts like an empty location list.\<close>

lemma zone_loop_failed_fetch_as_empty:
  "locs i = Inl e \<Longrightarrow> zone_loop (locs(i := Inr [])) addr zones = zone_loop locs addr zones"
  by (induction zones) (auto split: sum.splits option.splits)

text \<open>
  Claim C2. For a non-empty zone list and a destination country, the zone selected is the
  first zone, in the order of the list, that has a location of type "country" with the
  code of the destination; when there is none, the first zone whose name is not
  "Locations not covered by your other zones"; and when every zone has that name, the
  first zone of the list.
\<close>

theorem selectZone_first_match:
  assumes "zones \<noteq> []" and "country a = Some cc"
  shows "selectZone locs (Some a) zones =
           Inr (case find (zone_covers locs cc) zones of
                  Some z \<Rightarrow> z
                | None \<Rightarrow> (case find (\<lambda>z. name z \<noteq> catch_all_name) zones of
                             Some z \<Rightarrow> z
                           | None \<Rightarrow> hd zones))"
  using assms
  by (simp add: selectZone_def zone_loop_is_find [OF assms(2)] fallback_zone_nonempty
        first_real_zone_def split: option.splits)

theorem selectZone_first_match_witness:
  "selectZone ex_locations (Some \<lparr>country = Some ''DE''\<rparr>) ex_zones = Inr \<lparr>zone_id = 1, name = ''EU''\<rparr>
   \<and> selectZone ex_locations (Some \<lparr>country = Some ''US''\<rparr>) ex_zones = Inr \<lparr>zone_id = 1, name = ''EU''\<rparr>"
proof -
  have nonempty: "ex_zones \<noteq> []"
    by (simp add: ex_zones_def)
  have de: "country \<lparr>country = Some ''DE''\<rparr> = Some ''DE''"
    and us: "country \<lparr>country = Some ''US''\<rparr> = Some ''US''"
    by simp_all
  have found: "(case find (zone_covers ex_locations ''DE'') ex_zones of
                  Some z \<Rightarrow> z
                | None \<Rightarrow> (case find (\<lambda>z. name z \<noteq> catch_all_name) ex_zones of
                             Some z \<Rightarrow> z
                           | None \<Rightarrow> hd ex_zones)) = \<lparr>zone_id = 1, name = ''EU''\<rparr>"
    by code_simp
  have fallback: "(case find (zone_covers ex_locations ''US'') ex_zones of
                  Some z \<Rightarrow> z
                | None \<Rightarrow> (case find (\<lambda>z. name z \<noteq> catch_all_name) ex_zones of
                             Some z \<Rightarrow> z
                           | None \<Rightarrow> hd ex_zones)) = \<lparr>zone_id = 1, name = ''EU''\<rparr>"
    by code_simp
  show ?thesis
    using selectZone_first_match [OF nonempty de, of ex_locations]
      selectZone_first_match [OF nonempty us, of ex_locations]
    by (simp only: found fallback)
qed

text \<open>
  Claim C6. When the location fetch of a zone fails, the loop goes on with the zones after
  it, as if the zone had been left out. The zone selected and the response of the handler
  are those of an upstream where that fetch returns an empty location list: the failure
  alone never makes the calculation fail.
\<close>

theorem failed_location_fetch_skips_zone:
  assumes "get_locations up i = Inl e"
  shows "(\<forall>z zs. zone_id z = i \<longrightarrow>
            zone_loop (get_locations up) addr (z # zs) = zone_loop (get_locations up) addr zs)
         \<and> (\<forall>zones. selectZone ((get_locations up)(i := Inr [])) addr zones
                      = selectZone (get_locations up) addr zones)
         \<and> handler (up\<lparr>get_locations := (get_locations up)(i := Inr [])\<rparr>) body = handler up body"
proof -
  have skip: "\<forall>z zs. zone_id z = i \<longrightarrow>
            zone_loop (get_locations up) addr (z # zs) = zone_loop (get_locations up) addr zs"
    using assms by simp
  have sel: "selectZone ((get_locations up)(i := Inr [])) ad zones
               = selectZone (get_locations up) ad zones" for ad zones
    using assms by (simp add: selectZone_def zone_loop_failed_fetch_as_empty)
  have "calculateShipping (up\<lparr>get_locations := (get_locations up)(i := Inr [])\<rparr>) body
          = calculateShipping up body"
    by (simp add: calculateShipping_def sel cong: sum.case_cong)
  then show ?thesis
    using skip sel by (simp add: handler_def)
qed

theorem failed_location_fetch_skips_zone_witness:
  "get_locations ex_failing_upstream 1 = Inl ''timeout of 5000ms exceeded''
   \<and> handler (ex_failing_upstream
        \<lparr>get_locations := (get_locations ex_failing_upstream)(1 := Inr [])\<rparr>)
        (ex_body (Some \<lparr>country = Some ''DE''\<rparr>))
       = Json200
           [\<lparr>opt_id = ''flat_rate'', opt_instance_id = 7, opt_title = ''Flat rate'',
             cost = Num 2, description = ''Fixed rate delivery'', opt_enabled = True\<rparr>]
           \<lparr>zone_id = 2, name = ''Rest of World''\<rparr>"
proof -
  have fails: "get_locations ex_failing_upstream 1 = Inl ''timeout of 5000ms exceeded''"
    by (simp add: ex_failing_upstream_def)
  have run: "handler ex_failing_upstream (ex_body (Some \<lparr>country = Some ''DE''\<rparr>))
       = Json200
           [\<lparr>opt_id = ''flat_rate'', opt_instance_id = 7, opt_title = ''Flat rate'',
             cost = Num 2, description = ''Fixed rate delivery'', opt_enabled = True\<rparr>]
           \<lparr>zone_id = 2, name = ''Rest of World''\<rparr>"
    by code_simp
  show ?thesis
    using failed_location_fetch_skips_zone
      [OF fails, of None "ex_body (Some \<lparr>country = Some ''DE''\<rparr>)"] fails run
    by simp
qed

section \<open>Properties of the cost calculation\<close>




text \<open>For a string of the form \<^verbatim>\<open>N%\<close> the text that is parsed is \<^verbatim>\<open>N\<close>.\<close>

lemma remove1_percent_sign:
  "CHR ''%'' \<notin> set p \<Longrightarrow> remove1 CHR ''%'' (p @ CHR ''%'' # r) = p @ r"
  by (induction p) auto







text \<open>
  Claim C5 fails on the code. Only the flat-rate branch replaces a number that does not
  parse by 0 (\<^verbatim>\<open>parseFloat(costValue) || 0\<close>). The percentage branch and the
  "min_amount" branch use the result of \<^verbatim>\<open>parseFloat\<close> as it is, so a text that is no
  number gives the cost \<^verbatim>\<open>NaN\<close>. No error is raised in any branch.
\<close>

theorem unparseable_cost_is_NaN:
  "method_cost (Num 20) (ex_method [''cost'' \<mapsto> Some ''abc%'']) = NaN
   \<and> method_cost (Num 20) (ex_method [''cost'' \<mapsto> Some ''min_amount'', ''min_amount'' \<mapsto> Some ''n/a'']) = NaN
   \<and> method_cost (Num 20) (ex_method [''cost'' \<mapsto> Some ''abc'']) = Num 0
   \<and> map cost (computeOptions [ex_method [''cost'' \<mapsto> Some ''abc%'']] (Num 20)) = [NaN]"
  by code_simp








section \<open>Properties of the handler\<close>

text \<open>
  Claim C4. When upstream returns an empty zone list, the calculation fails with the error
  "No shipping zones available": the response has status 500 and carries that error, and
  no options are produced.
\<close>

theorem no_zones_fails:
  assumes "get_zones up = Inr []"
  shows "calculateShipping up body = Inl NoZonesAvailable
         \<and> handler up body = Json500 ''Failed to calculate shipping'' NoZonesAvailable
         \<and> status (handler up body) = 500"
  using assms
  by (simp add: handler_def calculateShipping_def selectZone_def fallback_zone_def)

theorem no_zones_fails_witness:
  "handler ((ex_upstream ''10%'')\<lparr>get_zones := Inr []\<rparr>) (ex_body (Some \<lparr>country = Some ''DE''\<rparr>))
     = Json500 ''Failed to calculate shipping'' NoZonesAvailable"
proof -
  have empty: "get_zones ((ex_upstream ''10%'')\<lparr>get_zones := Inr []\<rparr>) = Inr []"
    by simp
  show ?thesis
    using no_zones_fails [OF empty, of "ex_body (Some \<lparr>country = Some ''DE''\<rparr>)"] by simp
qed

text \<open>
  Claim C9. With a non-empty zone list, a request without a shipping address, or with an
  address without a country, selects the fallback zone (the first zone that does not bear
  the catch-all name, else the first zone). The handler then goes on as for any zone:
  it answers with the options of that zone, unless the fetch of its methods fails or the
  cart items are missing. The missing country itself is no error.
\<close>

theorem missing_country_uses_fallback:
  assumes "get_zones up = Inr zones" and "zones \<noteq> []"
    and "shipping_address body = None \<or> (\<exists>a. shipping_address body = Some a \<and> country a = None)"
  shows "selectZone (get_locations up) (shipping_address body) zones = Inr (first_real_zone zones)
         \<and> handler up body =
             (case get_methods up (zone_id (first_real_zone zones)) of
                Inl e \<Rightarrow> Json500 ''Failed to calculate shipping'' (UpstreamError e)
              | Inr methods \<Rightarrow>
                  (case cart_items body of
                     None \<Rightarrow> Json500 ''Failed to calculate shipping'' TypeError
                   | Some items \<Rightarrow>
                       Json200 (computeOptions methods (cartTotal items)) (first_real_zone zones)))"
proof -
  have sel: "selectZone (get_locations up) (shipping_address body) zones = Inr (first_real_zone zones)"
    using assms(2) zone_loop_no_country [OF assms(3)]
    by (simp add: selectZone_def fallback_zone_nonempty)
  show ?thesis
    using assms(1) sel
    by (simp add: handler_def calculateShipping_def split: sum.splits option.splits)
qed

theorem missing_country_uses_fallback_witness:
  "handler ((ex_upstream ''10%'')\<lparr>get_zones := Inr (\<lparr>zone_id = 0, name = catch_all_name\<rparr> # ex_zones)\<rparr>)
      (ex_body None)
     = Json200
         [\<lparr>opt_id = ''flat_rate'', opt_instance_id = 7, opt_title = ''Flat rate'',
           cost = Num 2, description = ''Fixed rate delivery'', opt_enabled = True\<rparr>]
         \<lparr>zone_id = 1, name = ''EU''\<rparr>
   \<and> handler ((ex_upstream ''10%'')\<lparr>get_zones := Inr (\<lparr>zone_id = 0, name = catch_all_name\<rparr> # ex_zones)\<rparr>)
      (ex_body (Some \<lparr>country = None\<rparr>))
     = Json200
         [\<lparr>opt_id = ''flat_rate'', opt_instance_id = 7, opt_title = ''Flat rate'',
           cost = Num 2, description = ''Fixed rate delivery'', opt_enabled = True\<rparr>]
         \<lparr>zone_id = 1, name = ''EU''\<rparr>"
proof -
  let ?zones = "\<lparr>zone_id = 0, name = catch_all_name\<rparr> # ex_zones"
  let ?up = "(ex_upstream ''10%'')\<lparr>get_zones := Inr ?zones\<rparr>"
  let ?out = "Json200
         [\<lparr>opt_id = ''flat_rate'', opt_instance_id = 7, opt_title = ''Flat rate'',
           cost = Num 2, description = ''Fixed rate delivery'', opt_enabled = True\<rparr>]
         \<lparr>zone_id = 1, name = ''EU''\<rparr>"
  have zs: "get_zones ?up = Inr ?zones" and ne: "?zones \<noteq> []"
    by simp_all
  have no_address: "shipping_address (ex_body None) = None
      \<or> (\<exists>a. shipping_address (ex_body None) = Some a \<and> country a = None)"
    by (simp add: ex_body_def)
  have no_country: "shipping_address (ex_body (Some \<lparr>country = None\<rparr>)) = None
      \<or> (\<exists>a. shipping_address (ex_body (Some \<lparr>country = None\<rparr>)) = Some a \<and> country a = None)"
    by (simp add: ex_body_def)
  have rhs: "(case get_methods ?up (zone_id (first_real_zone ?zones)) of
                Inl e \<Rightarrow> Json500 ''Failed to calculate shipping'' (UpstreamError e)
              | Inr methods \<Rightarrow>
                  (case cart_items (ex_body addr) of
                     None \<Rightarrow> Json500 ''Failed to calculate shipping'' TypeError
                   | Some items \<Rightarrow>
                       Json200 (computeOptions methods (cartTotal items)) (first_real_zone ?zones)))
             = ?out" for addr
    unfolding ex_body_def by code_simp
  have 1: "handler ?up (ex_body None) = ?out"
    using missing_country_uses_fallback [OF zs ne no_address] by (simp only: rhs)
  have 2: "handler ?up (ex_body (Some \<lparr>country = None\<rparr>)) = ?out"
    using missing_country_uses_fallback [OF zs ne no_country] by (simp only: rhs)
  show ?thesis
    using 1 2 by (rule conjI)
qed

text \<open>
  Claim C10. Without \<^verbatim>\<open>cart_items\<close> in the request body the response has status 500,
  whatever upstream does. When the zone list is fetched, a zone is selected and its methods
  are fetched, the failure is the \<^verbatim>\<open>TypeError\<close> of \<^verbatim>\<open>cart_items.reduce\<close>: the cart total
  is computed on every path that gets that far.
\<close>

theorem missing_cart_items_fails:
  assumes "cart_items body = None"
  shows "status (handler up body) = 500
         \<and> (\<forall>zones z methods.
               get_zones up = Inr zones
               \<and> selectZone (get_locations up) (shipping_address body) zones = Inr z
               \<and> get_methods up (zone_id z) = Inr methods
               \<longrightarrow> calculateShipping up body = Inl TypeError
                   \<and> handler up body = Json500 ''Failed to calculate shipping'' TypeError)"
  using assms
  by (auto simp: handler_def calculateShipping_def split: sum.splits option.splits)

theorem missing_cart_items_fails_witness:
  "handler (ex_upstream ''10%'') \<lparr>cart_items = None, shipping_address = Some \<lparr>country = Some ''DE''\<rparr>\<rparr>
     = Json500 ''Failed to calculate shipping'' TypeError"
proof -
  let ?up = "ex_upstream ''10%''"
  let ?body = "\<lparr>cart_items = None, shipping_address = Some \<lparr>country = Some ''DE''\<rparr>\<rparr>"
  have none: "cart_items ?body = None"
    by simp
  have zs: "get_zones ?up = Inr ex_zones"
    by (simp add: ex_upstream_def)
  have sel: "selectZone (get_locations ?up) (shipping_address ?body) ex_zones
               = Inr \<lparr>zone_id = 1, name = ''EU''\<rparr>"
    by code_simp
  have ms: "get_methods ?up (zone_id \<lparr>zone_id = 1, name = ''EU''\<rparr>)
               = Inr [ex_method [''cost'' \<mapsto> Some ''10%'']]"
    by (simp add: ex_upstream_def)
  show ?thesis
    using missing_cart_items_fails [OF none, of ?up] zs sel ms by blast
qed

end
